theory Spec2Isabelle
  imports Complex_Main
begin

section \<open>JavaScript numbers\<close>

text \<open>
  A JavaScript \<^verbatim>\<open>number\<close> is a finite value, one of the two infinities, or NaN.
  Finite values are taken as exact reals (no rounding of the binary64 format), and the
  negative zero is identified with zero: every divisor of the program that can be zero is
  an unsigned dimension or a quotient of two of them, so its zero is the positive one.
\<close>

datatype jsnum = Fin real | PInf | NInf | NaN

text \<open>The operator \<^verbatim>\<open>a / b\<close>: a finite value over zero is an infinity, zero over zero is NaN.\<close>

fun jdiv :: "jsnum \<Rightarrow> jsnum \<Rightarrow> jsnum" where
  "jdiv (Fin x) (Fin y) =
     (if y \<noteq> 0 then Fin (x / y) else if x = 0 then NaN else if 0 < x then PInf else NInf)"
| "jdiv (Fin x) PInf = Fin 0"
| "jdiv (Fin x) NInf = Fin 0"
| "jdiv PInf (Fin y) = (if 0 \<le> y then PInf else NInf)"
| "jdiv NInf (Fin y) = (if 0 \<le> y then NInf else PInf)"
| "jdiv _ _ = NaN"

text \<open>The operator \<^verbatim>\<open>a * b\<close>: zero times an infinity is NaN.\<close>

fun jmul :: "jsnum \<Rightarrow> jsnum \<Rightarrow> jsnum" where
  "jmul (Fin x) (Fin y) = Fin (x * y)"
| "jmul (Fin x) PInf = (if x = 0 then NaN else if 0 < x then PInf else NInf)"
| "jmul (Fin x) NInf = (if x = 0 then NaN else if 0 < x then NInf else PInf)"
| "jmul PInf (Fin y) = (if y = 0 then NaN else if 0 < y then PInf else NInf)"
| "jmul NInf (Fin y) = (if y = 0 then NaN else if 0 < y then NInf else PInf)"
| "jmul PInf PInf = PInf"
| "jmul PInf NInf = NInf"
| "jmul NInf PInf = NInf"
| "jmul NInf NInf = PInf"
| "jmul _ _ = NaN"

text \<open>The operator \<^verbatim>\<open>a - b\<close>: the difference of two equal infinities is NaN.\<close>

fun jsub :: "jsnum \<Rightarrow> jsnum \<Rightarrow> jsnum" where
  "jsub (Fin x) (Fin y) = Fin (x - y)"
| "jsub (Fin x) PInf = NInf"
| "jsub (Fin x) NInf = PInf"
| "jsub PInf (Fin y) = PInf"
| "jsub NInf (Fin y) = NInf"
| "jsub PInf NInf = PInf"
| "jsub NInf PInf = NInf"
| "jsub _ _ = NaN"

text \<open>\<^verbatim>\<open>Math.max\<close> and \<^verbatim>\<open>Math.min\<close> of two arguments: NaN if either is NaN.\<close>

fun jmax :: "jsnum \<Rightarrow> jsnum \<Rightarrow> jsnum" where
  "jmax NaN _ = NaN"
| "jmax _ NaN = NaN"
| "jmax PInf _ = PInf"
| "jmax _ PInf = PInf"
| "jmax NInf b = b"
| "jmax a NInf = a"
| "jmax (Fin x) (Fin y) = Fin (max x y)"

fun jmin :: "jsnum \<Rightarrow> jsnum \<Rightarrow> jsnum" where
  "jmin NaN _ = NaN"
| "jmin _ NaN = NaN"
| "jmin NInf _ = NInf"
| "jmin _ NInf = NInf"
| "jmin PInf b = b"
| "jmin a PInf = a"
| "jmin (Fin x) (Fin y) = Fin (min x y)"



fun truthy :: "jsnum \<Rightarrow> bool" where
  "truthy (Fin x) = (x \<noteq> 0)"
| "truthy NaN = False"
| "truthy _ = True"

fun jpos :: "jsnum \<Rightarrow> bool" where
  "jpos (Fin x) = (0 < x)"
| "jpos PInf = True"
| "jpos _ = False"

text \<open>The comparison \<^verbatim>\<open>a < 0\<close>.\<close>

fun jneg :: "jsnum \<Rightarrow> bool" where
  "jneg (Fin x) = (x < 0)"
| "jneg NInf = True"
| "jneg _ = False"


text \<open>\<^verbatim>\<open>a || d\<close> for an optional number \<open>a\<close> (\<open>None\<close> is \<^verbatim>\<open>undefined\<close>).\<close>

fun js_or :: "jsnum option \<Rightarrow> jsnum \<Rightarrow> jsnum" where
  "js_or None d = d"
| "js_or (Some a) d = (if truthy a then a else d)"

section \<open>The types of the editor (types.ts)\<close>

datatype AspectRatio = SQUARE | PORTRAIT | LANDSCAPE | CLASSIC | VERTICAL_4_5 | CUSTOM

datatype ScaleMode = CONTAIN | STRETCH | COVER

record Dimensions =
  width :: jsnum
  height :: jsnum

datatype ProcessingState = IDLE | GENERATING_BACKGROUND | RECORDING | COMPLETED | ERROR

record VideoConfig =
  aspectRatio :: AspectRatio
  scaleMode :: ScaleMode
  backgroundColor :: string
  useAIBackground :: bool
  aiPrompt :: string
  customWidth :: "jsnum option"
  customHeight :: "jsnum option"
  maintainAspectRatio :: "bool option"

text \<open>The table \<^verbatim>\<open>RESOLUTIONS\<close>: it has no entry for \<^verbatim>\<open>Custom\<close>.\<close>

fun RESOLUTIONS :: "AspectRatio \<Rightarrow> Dimensions option" where
  "RESOLUTIONS SQUARE = Some \<lparr>width = Fin 1080, height = Fin 1080\<rparr>"
| "RESOLUTIONS PORTRAIT = Some \<lparr>width = Fin 1080, height = Fin 1920\<rparr>"
| "RESOLUTIONS LANDSCAPE = Some \<lparr>width = Fin 1920, height = Fin 1080\<rparr>"
| "RESOLUTIONS CLASSIC = Some \<lparr>width = Fin 1440, height = Fin 1080\<rparr>"
| "RESOLUTIONS VERTICAL_4_5 = Some \<lparr>width = Fin 1080, height = Fin 1350\<rparr>"
| "RESOLUTIONS CUSTOM = None"

section \<open>The source video element and images\<close>

text \<open>
  The fields of the \<^verbatim>\<open>HTMLVideoElement\<close> that the editor reads and writes. The intrinsic
  sizes are unsigned integers; they are 0 until the metadata is loaded.
\<close>

record VideoEl =
  videoWidth :: nat
  videoHeight :: nat
  currentTime :: jsnum
  duration :: jsnum
  muted :: bool
  vvolume :: jsnum

record Image =
  img_src :: string
  img_width :: nat
  img_height :: nat

abbreviation num :: "nat \<Rightarrow> jsnum" where
  "num n \<equiv> Fin (real n)"

section \<open>Target dimensions\<close>

text \<open>\<^verbatim>\<open>getTargetDimensions\<close>; \<open>None\<close> is \<^verbatim>\<open>undefined\<close>, a missing entry of the table.\<close>

definition getTargetDimensions :: "VideoConfig \<Rightarrow> Dimensions option" where
  "getTargetDimensions config =
     (if aspectRatio config = CUSTOM
      then Some \<lparr>width = js_or (customWidth config) (Fin 1920),
                 height = js_or (customHeight config) (Fin 1080)\<rparr>
      else RESOLUTIONS (aspectRatio config))"

section \<open>Custom dimensions with the aspect-ratio lock\<close>



section \<open>The frame compositor\<close>

text \<open>
  The foreground rectangle of \<^verbatim>\<open>drawFrame\<close> (the variables \<open>x\<close>, \<open>y\<close>, \<open>w\<close>, \<open>h\<close>
  handed to the final \<^verbatim>\<open>drawImage\<close>), in the order \<open>(x, y, w, h)\<close>.
\<close>

definition foregroundRect :: "ScaleMode \<Rightarrow> Dimensions \<Rightarrow> VideoEl \<Rightarrow> jsnum \<times> jsnum \<times> jsnum \<times> jsnum" where
  "foregroundRect mode targetDim video =
     (if mode = STRETCH then (Fin 0, Fin 0, width targetDim, height targetDim)
      else if mode = COVER then
        let scale = jmax (jdiv (width targetDim) (num (videoWidth video)))
                         (jdiv (height targetDim) (num (videoHeight video)));
            w = jmul (num (videoWidth video)) scale;
            h = jmul (num (videoHeight video)) scale
        in (jdiv (jsub (width targetDim) w) (Fin 2), jdiv (jsub (height targetDim) h) (Fin 2), w, h)
      else
        let scale = jmin (jdiv (width targetDim) (num (videoWidth video)))
                         (jdiv (height targetDim) (num (videoHeight video)));
            w = jmul (num (videoWidth video)) scale;
            h = jmul (num (videoHeight video)) scale
        in (jdiv (jsub (width targetDim) w) (Fin 2), jdiv (jsub (height targetDim) h) (Fin 2), w, h))"

text \<open>
  The 2D drawing context: the attributes \<^verbatim>\<open>drawFrame\<close> assigns. The pixels of the canvas
  are left abstract (type \<open>'px\<close>): what an operation does to them is the browser's rendering,
  given as a function \<open>paint\<close> from the operation, with the context attributes in force
  when it is issued, to a change of the pixels. A colour assigned to an attribute is taken
  to be one the context accepts.
\<close>

record Ctx2D =
  fillStyle :: string
  shadowColor :: string
  shadowBlur :: jsnum
  shadowOffsetX :: jsnum
  shadowOffsetY :: jsnum

datatype drawop =
    FillRect jsnum jsnum jsnum jsnum
  | DrawImage Image jsnum jsnum jsnum jsnum
  | DrawVideo VideoEl jsnum jsnum jsnum jsnum

record 'px Canvas =
  ctx :: Ctx2D
  pixels :: 'px

type_synonym 'px painter = "Ctx2D \<times> drawop \<Rightarrow> 'px \<Rightarrow> 'px"

definition issue :: "'px painter \<Rightarrow> drawop \<Rightarrow> 'px Canvas \<Rightarrow> 'px Canvas" where
  "issue paint op cv = cv\<lparr>pixels := paint (ctx cv, op) (pixels cv)\<rparr>"

definition setCtx :: "(Ctx2D \<Rightarrow> Ctx2D) \<Rightarrow> 'px Canvas \<Rightarrow> 'px Canvas" where
  "setCtx f cv = cv\<lparr>ctx := f (ctx cv)\<rparr>"

datatype error = TypeError

text \<open>
  The background block of \<^verbatim>\<open>drawFrame\<close> under \<^verbatim>\<open>Contain\<close>: the generated image drawn to
  cover the canvas with a dark overlay, or the background colour again.
\<close>

definition drawBackground ::
  "'px painter \<Rightarrow> VideoConfig \<Rightarrow> Image option \<Rightarrow> Dimensions \<Rightarrow> 'px Canvas \<Rightarrow> 'px Canvas" where
  "drawBackground paint config aiBgImage targetDim cv =
     (case (if useAIBackground config then aiBgImage else None) of
        Some img \<Rightarrow>
          let scale = jmax (jdiv (width targetDim) (num (img_width img)))
                           (jdiv (height targetDim) (num (img_height img)));
              x = jsub (jdiv (width targetDim) (Fin 2)) (jmul (jdiv (num (img_width img)) (Fin 2)) scale);
              y = jsub (jdiv (height targetDim) (Fin 2)) (jmul (jdiv (num (img_height img)) (Fin 2)) scale);
              cv1 = issue paint (DrawImage img x y (jmul (num (img_width img)) scale)
                                                   (jmul (num (img_height img)) scale)) cv;
              cv2 = setCtx (\<lambda>c. c\<lparr>fillStyle := ''rgba(0,0,0,0.3)''\<rparr>) cv1
          in issue paint (FillRect (Fin 0) (Fin 0) (width targetDim) (height targetDim)) cv2
      | None \<Rightarrow>
          let cv1 = setCtx (\<lambda>c. c\<lparr>fillStyle := backgroundColor config\<rparr>) cv
          in issue paint (FillRect (Fin 0) (Fin 0) (width targetDim) (height targetDim)) cv1)"

text \<open>
  \<^verbatim>\<open>drawFrame\<close>. \<open>video\<close> and \<open>canvas\<close> are \<^verbatim>\<open>videoRef.current\<close> and the context of
  \<^verbatim>\<open>canvasRef.current\<close> (\<open>None\<close> when either the canvas or its context is missing); the
  result is the canvas afterwards. Reading a field of an undefined target dimension throws.
\<close>

definition drawFrame ::
  "'px painter \<Rightarrow> VideoConfig \<Rightarrow> Image option \<Rightarrow> VideoEl option \<Rightarrow> 'px Canvas option
     \<Rightarrow> error + 'px Canvas option" where
  "drawFrame paint config aiBgImage video canvas =
     (case (video, canvas) of
        (Some vid, Some cv) \<Rightarrow>
          (case getTargetDimensions config of
             None \<Rightarrow> Inl TypeError
           | Some targetDim \<Rightarrow>
               let cv1 = setCtx (\<lambda>c. c\<lparr>fillStyle := backgroundColor config\<rparr>) cv;
                   cv2 = issue paint (FillRect (Fin 0) (Fin 0) (width targetDim) (height targetDim)) cv1;
                   cv3 = (if scaleMode config = CONTAIN
                          then drawBackground paint config aiBgImage targetDim cv2 else cv2);
                   (x, y, w, h) = foregroundRect (scaleMode config) targetDim vid;
                   cv4 = (if scaleMode config \<noteq> STRETCH \<and> scaleMode config \<noteq> COVER
                          then setCtx (\<lambda>c. c\<lparr>shadowColor := ''rgba(0, 0, 0, 0.5)'', shadowBlur := Fin 20,
                                               shadowOffsetX := Fin 0, shadowOffsetY := Fin 10\<rparr>) cv3
                          else cv3);
                   cv5 = issue paint (DrawVideo vid x y w h) cv4
               in Inr (Some (setCtx (\<lambda>c. c\<lparr>shadowColor := ''transparent'', shadowBlur := Fin 0,
                                            shadowOffsetX := Fin 0, shadowOffsetY := Fin 0\<rparr>) cv5)))
      | _ \<Rightarrow> Inr canvas)"

text \<open>The shadow attributes as \<^verbatim>\<open>drawFrame\<close> leaves them.\<close>

definition shadowReset :: "Ctx2D \<Rightarrow> bool" where
  "shadowReset c \<longleftrightarrow> shadowColor c = ''transparent'' \<and> shadowBlur c = Fin 0
     \<and> shadowOffsetX c = Fin 0 \<and> shadowOffsetY c = Fin 0"

section \<open>The background-image service (geminiService.ts)\<close>

text \<open>
  A part of the model's answer: its inline data, if any, with an optional MIME type and
  the base64 data. The answer as a whole is reduced to what the service reads,
  \<^verbatim>\<open>response.candidates?.[0]?.content?.parts\<close>, which is undefined (\<open>None\<close>) when any
  link of the chain is missing.
\<close>

record InlineData =
  mimeType :: "string option"
  idata :: "string option"

type_synonym part = "InlineData option"

fun firstInlineImage :: "part list \<Rightarrow> string option" where
  "firstInlineImage [] = None"
| "firstInlineImage (None # ps) = firstInlineImage ps"
| "firstInlineImage (Some d # ps) =
     (case idata d of
        Some b \<Rightarrow>
          if b \<noteq> []
          then Some (''data:'' @ (case mimeType d of Some m \<Rightarrow> (if m \<noteq> [] then m else ''image/png'')
                                                   | None \<Rightarrow> ''image/png'') @ '';base64,'' @ b)
          else firstInlineImage ps
      | None \<Rightarrow> firstInlineImage ps)"

text \<open>
  \<^verbatim>\<open>generateBackgroundImage\<close>: \<open>Inl\<close> is the error thrown. \<open>generateContent\<close> is the remote
  call, which may itself reject.
\<close>

definition generateBackgroundImage ::
  "string \<Rightarrow> (string \<Rightarrow> string + part list option) \<Rightarrow> string \<Rightarrow> string + string" where
  "generateBackgroundImage apiKey generateContent prompt =
     (if apiKey = [] then Inl ''API Key not found in environment variables''
      else case generateContent prompt of
             Inl e \<Rightarrow> Inl e
           | Inr None \<Rightarrow> Inl ''No image data received from Gemini.''
           | Inr (Some parts) \<Rightarrow>
               (case firstInlineImage parts of
                  Some url \<Rightarrow> Inr url
                | None \<Rightarrow> Inl ''No image data received from Gemini.''))"

section \<open>The capture orchestrator\<close>

type_synonym blob = "nat list"

text \<open>
  The state of the component: its React state variables and the two refs. The canvas is
  kept apart (see \<open>drawFrame\<close>); here only its presence matters.
\<close>

record EditorState =
  processingState :: ProcessingState
  progress :: jsnum
  downloadUrl :: "blob option"
  recordingMimeType :: string
  aiBgImage :: "Image option"
  errorMsg :: "string option"
  isPlaying :: bool
  isMuted :: bool
  volume :: jsnum
  videoRef :: "VideoEl option"
  canvasRef :: bool

text \<open>
  A history is the current state with the states before it, oldest first: every
  assignment of the source adds one state, so that the states an export passes through
  can be told apart from the one it ends in.
\<close>

type_synonym history = "EditorState list \<times> EditorState"

definition now :: "history \<Rightarrow> EditorState" where
  "now h = snd h"

definition visited :: "history \<Rightarrow> EditorState list" where
  "visited h = fst h @ [snd h]"

definition upd :: "(EditorState \<Rightarrow> EditorState) \<Rightarrow> history \<Rightarrow> history" where
  "upd f h = (fst h @ [snd h], f (snd h))"

definition updVideo :: "(VideoEl \<Rightarrow> VideoEl) \<Rightarrow> history \<Rightarrow> history" where
  "updVideo f h = upd (\<lambda>s. s\<lparr>videoRef := map_option f (videoRef s)\<rparr>) h"

text \<open>
  What the runtime contributes to one export: the API key and the remote call of the
  image service, the loading of an image from a data URL (\<open>None\<close>: its load event never
  fires), \<^verbatim>\<open>MediaRecorder.isTypeSupported\<close>, whether \<^verbatim>\<open>video.play()\<close> resolves, the frame
  notifications that reach \<^verbatim>\<open>renderLoop\<close> (the media time each carries and
  \<^verbatim>\<open>video.ended\<close> as read in that iteration), and the data the recorder delivers.
\<close>

record Env =
  apiKey :: string
  generateContent :: "string \<Rightarrow> string + part list option"
  loadImage :: "string \<Rightarrow> Image option"
  isTypeSupported :: "string \<Rightarrow> bool"
  playOk :: bool
  frames :: "(jsnum \<times> bool) list"
  dataEvents :: "blob list"

text \<open>\<^verbatim>\<open>String.prototype.trim\<close> on the ASCII white space.\<close>

definition is_ws :: "char \<Rightarrow> bool" where
  "is_ws c \<longleftrightarrow> c \<in> set [CHR '' '', CHR 0x09, CHR 0x0A, CHR 0x0B, CHR 0x0C, CHR 0x0D]"

definition js_trim :: "string \<Rightarrow> string" where
  "js_trim s = rev (dropWhile is_ws (rev (dropWhile is_ws s)))"

text \<open>
  \<^verbatim>\<open>generateAIBackground\<close>. The second component tells whether the function comes to its
  end; it does not when the image never loads.
\<close>

definition generateAIBackground :: "Env \<Rightarrow> VideoConfig \<Rightarrow> history \<Rightarrow> history \<times> bool" where
  "generateAIBackground env config h =
     (if js_trim (aiPrompt config) = [] then (h, True)
      else
        let h1 = upd (\<lambda>s. s\<lparr>processingState := GENERATING_BACKGROUND\<rparr>) h;
            h2 = upd (\<lambda>s. s\<lparr>errorMsg := None\<rparr>) h1
        in case generateBackgroundImage (apiKey env) (generateContent env)
                  (aiPrompt config @ '' texture, abstract background, high quality, seamless pattern style'') of
             Inr base64Image \<Rightarrow>
               (case loadImage env base64Image of
                  Some img \<Rightarrow>
                    (upd (\<lambda>s. s\<lparr>processingState := IDLE\<rparr>) (upd (\<lambda>s. s\<lparr>aiBgImage := Some img\<rparr>) h2), True)
                | None \<Rightarrow> (h2, False))
           | Inl err \<Rightarrow>
               (upd (\<lambda>s. s\<lparr>processingState := IDLE\<rparr>)
                  (upd (\<lambda>s. s\<lparr>errorMsg := Some ''Failed to generate background. Check API Key or try again.''\<rparr>) h2),
                True))"

text \<open>
  \<^verbatim>\<open>renderLoop\<close>, over the frame notifications still to come. Each iteration reads the
  processing state, draws the frame (on the canvas, not part of this state) and publishes
  the progress. The second component tells whether the loop has scheduled the stop of the
  recorder, which it does on the first frame read with \<^verbatim>\<open>video.ended\<close>. When the notifications
  run out before that, nothing more happens.
\<close>

fun renderLoop :: "(jsnum \<times> bool) list \<Rightarrow> history \<Rightarrow> history \<times> bool" where
  "renderLoop [] h = (h, False)"
| "renderLoop ((mediaTime, ended) # fs) h =
     (if processingState (now h) \<noteq> RECORDING then (h, False)
      else
        let pct = jmul (jdiv mediaTime (case videoRef (now h) of Some v \<Rightarrow> duration v | None \<Rightarrow> NaN))
                       (Fin 100);
            h1 = upd (\<lambda>s. s\<lparr>progress := pct\<rparr>) h
        in if ended then (h1, True) else renderLoop fs h1)"

text \<open>
  \<^verbatim>\<open>mediaRecorder.onstop\<close>. \<open>volume0\<close> and \<open>isMuted0\<close> are the values of the state variables
  \<^verbatim>\<open>volume\<close> and \<^verbatim>\<open>isMuted\<close> that the handler has captured, those of the render in which
  \<^verbatim>\<open>startProcessing\<close> was called. A blob is the list of its bytes, and the object URL
  published for download stands for the blob.
\<close>

definition onstop :: "jsnum \<Rightarrow> bool \<Rightarrow> blob list \<Rightarrow> history \<Rightarrow> history" where
  "onstop volume0 isMuted0 chunks h =
     (let blob = concat chunks
      in if length blob = 0
         then upd (\<lambda>s. s\<lparr>processingState := IDLE\<rparr>)
                (upd (\<lambda>s. s\<lparr>errorMsg := Some ''Recording failed (0 bytes). Try a different browser or file.''\<rparr>) h)
         else
           let h1 = upd (\<lambda>s. s\<lparr>downloadUrl := Some blob\<rparr>) h;
               h2 = upd (\<lambda>s. s\<lparr>processingState := COMPLETED\<rparr>) h1;
               h3 = updVideo (\<lambda>v. v\<lparr>currentTime := jdiv (duration v) (Fin 2)\<rparr>) h2;
               h4 = updVideo (\<lambda>v. v\<lparr>vvolume := volume0\<rparr>) h3;
               h5 = updVideo (\<lambda>v. v\<lparr>muted := isMuted0\<rparr>) h4
           in upd (\<lambda>s. s\<lparr>isPlaying := False\<rparr>) h5)"

definition mimeTypes :: "string list" where
  "mimeTypes = [''video/webm;codecs=vp9,opus'', ''video/webm;codecs=vp8,opus'', ''video/webm'', ''video/mp4'']"

text \<open>
  The part of \<^verbatim>\<open>startProcessing\<close> from \<^verbatim>\<open>setProcessingState(RECORDING)\<close> on, with the
  callbacks it registers run to the end: the render loop over the frames of the
  environment and, once the loop has asked the recorder to stop, the \<^verbatim>\<open>onstop\<close> handler on
  the chunks kept by \<^verbatim>\<open>ondataavailable\<close> (those of positive size). The streams and the
  recorder are the browser's; their construction is taken to succeed, and the recorder to
  be still recording when the loop stops it.
\<close>

definition startRecording :: "Env \<Rightarrow> jsnum \<Rightarrow> bool \<Rightarrow> history \<Rightarrow> history" where
  "startRecording env volume0 isMuted0 h2 =
     (let h3 = upd (\<lambda>s. s\<lparr>processingState := RECORDING\<rparr>) h2;
          h4 = upd (\<lambda>s. s\<lparr>downloadUrl := None\<rparr>) h3;
          h5 = upd (\<lambda>s. s\<lparr>progress := Fin 0\<rparr>) h4;
          h6 = upd (\<lambda>s. s\<lparr>errorMsg := None\<rparr>) h5;
          selectedMimeType = (case find (isTypeSupported env) mimeTypes of
                                Some t \<Rightarrow> t | None \<Rightarrow> ''video/webm'');
          h7 = upd (\<lambda>s. s\<lparr>recordingMimeType := selectedMimeType\<rparr>) h6;
          h8 = updVideo (\<lambda>v. v\<lparr>currentTime := Fin 0\<rparr>) h7;
          h9 = updVideo (\<lambda>v. v\<lparr>muted := False\<rparr>) h8;
          h10 = updVideo (\<lambda>v. v\<lparr>vvolume := Fin (1 / 100)\<rparr>) h9
      in if \<not> playOk env
         then upd (\<lambda>s. s\<lparr>processingState := IDLE\<rparr>)
                (upd (\<lambda>s. s\<lparr>errorMsg := Some ''Could not play video for recording.''\<rparr>) h10)
         else
           let (h11, stopRequested) = renderLoop (frames env) h10
           in if stopRequested
              then onstop volume0 isMuted0 (filter (\<lambda>d. 0 < length d) (dataEvents env)) h11
              else h11)"

text \<open>
  \<^verbatim>\<open>startProcessing\<close>: the guard on the refs, the optional generation of the background,
  and the recording. The state variables it reads (\<^verbatim>\<open>aiBgImage\<close>, \<^verbatim>\<open>volume\<close>,
  \<^verbatim>\<open>isMuted\<close>) are those of the render in which it is called.
\<close>

definition startProcessing :: "Env \<Rightarrow> VideoConfig \<Rightarrow> history \<Rightarrow> history" where
  "startProcessing env config h =
     (let s0 = now h
      in if videoRef s0 = None \<or> \<not> canvasRef s0 then h
         else
           let h1 = upd (\<lambda>s. s\<lparr>isPlaying := False\<rparr>) h;
               (h2, settled) =
                  (if scaleMode config = CONTAIN \<and> useAIBackground config \<and> aiBgImage s0 = None
                        \<and> aiPrompt config \<noteq> []
                   then generateAIBackground env config h1 else (h1, True))
           in if \<not> settled then h2
              else startRecording env (volume s0) (isMuted s0) h2)"


section \<open>Observations on a run\<close>


text \<open>The states a function adds to a history, and the progress values among them.\<close>

definition added :: "history \<Rightarrow> history \<Rightarrow> EditorState list" where
  "added h h' = drop (length (visited h)) (visited h')"


section \<open>Sample inputs\<close>

text \<open>The configuration the application starts with, and a loaded 1920x1080 source of ten seconds.\<close>

definition defaultConfig :: VideoConfig where
  "defaultConfig = \<lparr>aspectRatio = PORTRAIT, scaleMode = CONTAIN, backgroundColor = ''#000000'',
     useAIBackground = False, aiPrompt = ''Cosmic nebula with purple and blue hues'',
     customWidth = Some (Fin 1920), customHeight = Some (Fin 1080), maintainAspectRatio = Some True\<rparr>"

definition hdVideo :: VideoEl where
  "hdVideo = \<lparr>videoWidth = 1920, videoHeight = 1080, currentTime = Fin 5, duration = Fin 10,
     muted = False, vvolume = Fin 1\<rparr>"

text \<open>
  An editor at rest on a loaded video, and an environment in which the image service has
  no API key, every recording type is supported, playback starts, three frames arrive
  (the last at the end of the stream) and the recorder delivers two chunks.
\<close>

definition idleEditor :: EditorState where
  "idleEditor = \<lparr>processingState = IDLE, progress = Fin 0, downloadUrl = None, recordingMimeType = [],
     aiBgImage = None, errorMsg = None, isPlaying = False, isMuted = True, volume = Fin (1 / 2),
     videoRef = Some (hdVideo\<lparr>currentTime := Fin 3, muted := True, vvolume := Fin (1 / 2)\<rparr>),
     canvasRef = True\<rparr>"

definition sampleEnv :: Env where
  "sampleEnv = \<lparr>apiKey = [], generateContent = (\<lambda>p. Inr None), loadImage = (\<lambda>u. None),
     isTypeSupported = (\<lambda>t. True), playOk = True,
     frames = [(Fin 0, False), (Fin 5, False), (Fin 10, True)],
     dataEvents = [[1, 2, 3], [], [4, 5]]\<rparr>"

text \<open>Variants of the samples: an editor while recording and one with a completed export,
  an environment whose recorder delivers no byte, and the sample configuration with the
  AI background requested.\<close>

definition recordingEditor :: EditorState where
  "recordingEditor = idleEditor\<lparr>processingState := RECORDING\<rparr>"

definition silentEnv :: Env where
  "silentEnv = sampleEnv\<lparr>dataEvents := [[], []]\<rparr>"

definition aiConfig :: VideoConfig where
  "aiConfig = defaultConfig\<lparr>useAIBackground := True\<rparr>"


text \<open>
  A rendering to run \<open>drawFrame\<close> on. It is the browser's rule for one pixel, not code
  of the repository: the grey level of a pixel of the padding, outside the foreground
  rectangle and its shadow. A fill of the whole canvas composes its colour over the pixel
  (source-over, the default of the canvas) with the grey level and the alpha of the colour;
  the images drawn do not reach the pixel. The colours known are the default background,
  the overlay of \<open>drawFrame\<close>, and a half-transparent white; a fresh context has the
  default fill style and no shadow.
\<close>

definition cssColour :: "string \<Rightarrow> (real \<times> real) option" where
  "cssColour s = (if s = ''#000000'' then Some (0, 1)
                  else if s = ''rgba(0,0,0,0.3)'' then Some (0, 3 / 10)
                  else if s = ''rgba(255,255,255,0.5)'' then Some (255, 1 / 2)
                  else None)"

definition paddingPixel :: "real painter" where
  "paddingPixel = (\<lambda>(c, op) p.
     case op of
       FillRect x y w h \<Rightarrow> (case cssColour (fillStyle c) of Some (g, a) \<Rightarrow> a * g + (1 - a) * p | None \<Rightarrow> p)
     | DrawImage i x y w h \<Rightarrow> p
     | DrawVideo v x y w h \<Rightarrow> p)"

definition freshCtx :: Ctx2D where
  "freshCtx = \<lparr>fillStyle = ''#000000'', shadowColor = ''transparent'', shadowBlur = Fin 0,
     shadowOffsetX = Fin 0, shadowOffsetY = Fin 0\<rparr>"

definition translucentConfig :: VideoConfig where
  "translucentConfig = defaultConfig\<lparr>backgroundColor := ''rgba(255,255,255,0.5)''\<rparr>"

section \<open>The geometry of the fit modes\<close>









section \<open>Target and custom dimensions\<close>

lemma js_or_pos:
  assumes "0 < d"
  shows "jpos (js_or a (Fin d)) \<longleftrightarrow> (\<forall>v. a = Some v \<longrightarrow> \<not> jneg v)"
proof (cases a)
  case None
  then show ?thesis using assms by simp
next
  case (Some v)
  then show ?thesis using assms by (cases v) auto
qed

text \<open>
  Claim C10 (amended). \<^verbatim>\<open>getTargetDimensions\<close> always returns dimensions. Those of a preset
  are positive. Those of \<^verbatim>\<open>Custom\<close> are the custom width and height, with 1920 and 1080 in
  place of a value that is absent, zero or NaN; each is positive unless the custom value is
  negative, which is returned as it is.
\<close>

theorem getTargetDimensions_positive:
  "\<exists>d. getTargetDimensions config = Some d
     \<and> (aspectRatio config \<noteq> CUSTOM \<longrightarrow> jpos (width d) \<and> jpos (height d))
     \<and> (aspectRatio config = CUSTOM \<longrightarrow>
          width d = js_or (customWidth config) (Fin 1920)
        \<and> height d = js_or (customHeight config) (Fin 1080)
        \<and> (jpos (width d) \<longleftrightarrow> (\<forall>a. customWidth config = Some a \<longrightarrow> \<not> jneg a))
        \<and> (jpos (height d) \<longleftrightarrow> (\<forall>a. customHeight config = Some a \<longrightarrow> \<not> jneg a)))"
proof (cases "aspectRatio config = CUSTOM")
  case True
  have w: "jpos (js_or (customWidth config) (Fin 1920)) \<longleftrightarrow> (\<forall>a. customWidth config = Some a \<longrightarrow> \<not> jneg a)"
    by (rule js_or_pos) simp
  have h: "jpos (js_or (customHeight config) (Fin 1080)) \<longleftrightarrow> (\<forall>a. customHeight config = Some a \<longrightarrow> \<not> jneg a)"
    by (rule js_or_pos) simp
  show ?thesis using True w h by (simp add: getTargetDimensions_def)
next
  case False
  then show ?thesis by (cases "aspectRatio config") (simp_all add: getTargetDimensions_def)
qed

theorem getTargetDimensions_positive_witness:
  "aspectRatio (defaultConfig\<lparr>aspectRatio := CUSTOM, customWidth := Some (Fin 0), customHeight := None\<rparr>) = CUSTOM
   \<and> (\<exists>d. getTargetDimensions (defaultConfig\<lparr>aspectRatio := CUSTOM, customWidth := Some (Fin 0), customHeight := None\<rparr>) = Some d
        \<and> width d = Fin 1920 \<and> height d = Fin 1080 \<and> jpos (width d) \<and> jpos (height d))"
  using getTargetDimensions_positive [of "defaultConfig\<lparr>aspectRatio := CUSTOM, customWidth := Some (Fin 0), customHeight := None\<rparr>"]
  by (auto simp add: defaultConfig_def)

text \<open>
  Claim C10 as stated fails: a negative custom width is a truthy number, so it is the
  width returned.
\<close>

theorem getTargetDimensions_negative_counterexample:
  "getTargetDimensions (defaultConfig\<lparr>aspectRatio := CUSTOM, customWidth := Some (Fin (- 5))\<rparr>)
     = Some \<lparr>width = Fin (- 5), height = Fin 1080\<rparr>
   \<and> \<not> jpos (width \<lparr>width = Fin (- 5), height = Fin 1080\<rparr>)"
  by (simp add: getTargetDimensions_def defaultConfig_def)





section \<open>The render loop and the finalization\<close>

lemma now_upd: "now (upd f h) = f (now h)"
  by (simp add: now_def upd_def)

lemma visited_upd: "visited (upd f h) = visited h @ [f (now h)]"
  by (simp add: visited_def upd_def now_def)

lemma now_updVideo: "now (updVideo f h) = (now h)\<lparr>videoRef := map_option f (videoRef (now h))\<rparr>"
  by (simp add: updVideo_def now_upd)

lemma visited_updVideo:
  "visited (updVideo f h) = visited h @ [(now h)\<lparr>videoRef := map_option f (videoRef (now h))\<rparr>]"
  by (simp add: updVideo_def visited_upd)

declare now_upd [simp] visited_upd [simp] now_updVideo [simp] visited_updVideo [simp]

lemma added_append: "visited h' = visited h @ r \<Longrightarrow> added h h' = r"
  by (simp add: added_def)

declare added_append [simp]

text \<open>The render loop only ever changes the progress.\<close>

lemma renderLoop_visited:
  "\<exists>ps. visited (fst (renderLoop fs h)) = visited h @ map (\<lambda>p. (now h)\<lparr>progress := p\<rparr>) ps
      \<and> now (fst (renderLoop fs h)) = (now h)\<lparr>progress := last (progress (now h) # ps)\<rparr>"
proof (induction fs arbitrary: h)
  case Nil
  show ?case by (rule exI[of _ "[]"]) simp
next
  case (Cons f fs)
  obtain m e where f: "f = (m, e)" by (cases f)
  show ?case
  proof (cases "processingState (now h) = RECORDING")
    case False
    then show ?thesis using f by (intro exI[of _ "[]"]) simp
  next
    case True
    define p where "p = jmul (jdiv m (case videoRef (now h) of Some v \<Rightarrow> duration v | None \<Rightarrow> NaN)) (Fin 100)"
    define h1 where "h1 = upd (\<lambda>s. s\<lparr>progress := p\<rparr>) h"
    show ?thesis
    proof (cases e)
      case True
      have "renderLoop (f # fs) h = (h1, True)"
        using f True \<open>processingState (now h) = RECORDING\<close> by (simp add: h1_def p_def Let_def)
      then show ?thesis by (intro exI[of _ "[p]"]) (simp add: h1_def)
    next
      case False
      have r: "renderLoop (f # fs) h = renderLoop fs h1"
        using f False \<open>processingState (now h) = RECORDING\<close> by (simp add: h1_def p_def Let_def)
      from Cons.IH[of h1] obtain ps where
        ps: "visited (fst (renderLoop fs h1)) = visited h1 @ map (\<lambda>q. (now h1)\<lparr>progress := q\<rparr>) ps"
            "now (fst (renderLoop fs h1)) = (now h1)\<lparr>progress := last (progress (now h1) # ps)\<rparr>"
        by blast
      show ?thesis
        using ps r by (intro exI[of _ "p # ps"]) (simp add: h1_def)
    qed
  qed
qed

lemma renderLoop_stop:
  "processingState (now h) = RECORDING \<Longrightarrow> snd (renderLoop fs h) = (\<exists>f\<in>set fs. snd f)"
proof (induction fs arbitrary: h)
  case Nil
  then show ?case by simp
next
  case (Cons f fs)
  obtain m e where f: "f = (m, e)" by (cases f)
  show ?case
  proof (cases e)
    case True
    then show ?thesis using f Cons.prems by (simp add: Let_def)
  next
    case False
    then show ?thesis using f Cons.prems Cons.IH by (simp add: Let_def)
  qed
qed










lemma concat_kept_chunks: "concat (filter (\<lambda>d. 0 < length d) xs) = concat xs"
  by (induction xs) auto

text \<open>What a recording has done when the render loop hands over to \<open>onstop\<close>.\<close>

lemma startRecording_finalizes:
  assumes "playOk env" and "\<exists>f\<in>set (frames env). snd f"
  shows "\<exists>h11 r. startRecording env volume0 isMuted0 h
                  = onstop volume0 isMuted0 (filter (\<lambda>d. 0 < length d) (dataEvents env)) h11
      \<and> visited h11 = visited h @ r \<and> (\<forall>s\<in>set r. processingState s = RECORDING)
      \<and> processingState (now h11) = RECORDING \<and> downloadUrl (now h11) = None
      \<and> errorMsg (now h11) = None
      \<and> videoRef (now h11)
          = map_option (\<lambda>v. v\<lparr>currentTime := Fin 0, muted := False, vvolume := Fin (1 / 100)\<rparr>) (videoRef (now h))"
proof -
  define h10 where "h10 =
    updVideo (\<lambda>v. v\<lparr>vvolume := Fin (1 / 100)\<rparr>) (updVideo (\<lambda>v. v\<lparr>muted := False\<rparr>)
     (updVideo (\<lambda>v. v\<lparr>currentTime := Fin 0\<rparr>)
      (upd (\<lambda>s. s\<lparr>recordingMimeType := (case find (isTypeSupported env) mimeTypes of
                                Some t \<Rightarrow> t | None \<Rightarrow> ''video/webm'')\<rparr>)
       (upd (\<lambda>s. s\<lparr>errorMsg := None\<rparr>) (upd (\<lambda>s. s\<lparr>progress := Fin 0\<rparr>)
        (upd (\<lambda>s. s\<lparr>downloadUrl := None\<rparr>) (upd (\<lambda>s. s\<lparr>processingState := RECORDING\<rparr>) h)))))))"
  have rec: "processingState (now h10) = RECORDING" by (simp add: h10_def)
  have stop: "snd (renderLoop (frames env) h10)" using renderLoop_stop[OF rec] assms(2) by simp
  have run: "startRecording env volume0 isMuted0 h
      = onstop volume0 isMuted0 (filter (\<lambda>d. 0 < length d) (dataEvents env)) (fst (renderLoop (frames env) h10))"
    using assms(1) stop by (simp add: startRecording_def Let_def h10_def split_beta)
  obtain ps where ps:
    "visited (fst (renderLoop (frames env) h10)) = visited h10 @ map (\<lambda>p. (now h10)\<lparr>progress := p\<rparr>) ps"
    "now (fst (renderLoop (frames env) h10)) = (now h10)\<lparr>progress := last (progress (now h10) # ps)\<rparr>"
    using renderLoop_visited by blast
  obtain r0 where r0: "visited h10 = visited h @ r0" "\<forall>s\<in>set r0. processingState s = RECORDING"
    by (simp add: h10_def)
  have fields: "downloadUrl (now h10) = None" "errorMsg (now h10) = None"
    "videoRef (now h10) = map_option (\<lambda>v. v\<lparr>currentTime := Fin 0, muted := False, vvolume := Fin (1 / 100)\<rparr>) (videoRef (now h))"
    by (simp_all add: h10_def option.map_comp comp_def)
  show ?thesis
    apply (rule exI[of _ "fst (renderLoop (frames env) h10)"])
    apply (rule exI[of _ "r0 @ map (\<lambda>p. (now h10)\<lparr>progress := p\<rparr>) ps"])
    using run ps r0 rec fields by auto
qed


lemma onstop_zero:
  assumes "length (concat chunks) = 0"
  shows "onstop volume0 isMuted0 chunks h
       = upd (\<lambda>s. s\<lparr>processingState := IDLE\<rparr>)
           (upd (\<lambda>s. s\<lparr>errorMsg := Some ''Recording failed (0 bytes). Try a different browser or file.''\<rparr>) h)"
  using assms by (simp add: onstop_def)

text \<open>
  Claim C7. When the chunks kept add up to zero bytes, \<open>onstop\<close> sets the error message and
  the state \<^verbatim>\<open>IDLE\<close> and leaves the download URL alone; and a recording that comes to its
  finalization with no byte delivered ends \<^verbatim>\<open>IDLE\<close> with the error message and no
  download URL, having passed through no \<^verbatim>\<open>COMPLETED\<close> state.
\<close>

theorem zero_byte_finalize_fails:
  "(length (concat chunks) = 0 \<longrightarrow>
      (let h' = onstop volume0 isMuted0 chunks h
       in processingState (now h') = IDLE
        \<and> errorMsg (now h') = Some ''Recording failed (0 bytes). Try a different browser or file.''
        \<and> downloadUrl (now h') = downloadUrl (now h)))
 \<and> (playOk env \<and> (\<exists>f\<in>set (frames env). snd f) \<and> concat (dataEvents env) = [] \<longrightarrow>
      (let h' = startRecording env volume0 isMuted0 h
       in processingState (now h') = IDLE
        \<and> errorMsg (now h') = Some ''Recording failed (0 bytes). Try a different browser or file.''
        \<and> downloadUrl (now h') = None
        \<and> (\<forall>s\<in>set (added h h'). processingState s \<noteq> COMPLETED)))"
proof (intro conjI impI)
  assume z: "length (concat chunks) = 0"
  show "let h' = onstop volume0 isMuted0 chunks h
       in processingState (now h') = IDLE
        \<and> errorMsg (now h') = Some ''Recording failed (0 bytes). Try a different browser or file.''
        \<and> downloadUrl (now h') = downloadUrl (now h)"
    unfolding Let_def onstop_zero[OF z] by simp
next
  assume run: "playOk env \<and> (\<exists>f\<in>set (frames env). snd f) \<and> concat (dataEvents env) = []"
  define chunks where "chunks = filter (\<lambda>d. 0 < length d) (dataEvents env)"
  have "concat chunks = []" unfolding chunks_def concat_kept_chunks using run by blast
  then have z: "length (concat chunks) = 0" by simp
  obtain h11 r where h11:
    "startRecording env volume0 isMuted0 h = onstop volume0 isMuted0 chunks h11"
    "visited h11 = visited h @ r" "\<forall>s\<in>set r. processingState s = RECORDING"
    "processingState (now h11) = RECORDING" "downloadUrl (now h11) = None"
    unfolding chunks_def using startRecording_finalizes[of env volume0 isMuted0 h] run by blast
  have run_eq: "startRecording env volume0 isMuted0 h
       = upd (\<lambda>s. s\<lparr>processingState := IDLE\<rparr>)
           (upd (\<lambda>s. s\<lparr>errorMsg := Some ''Recording failed (0 bytes). Try a different browser or file.''\<rparr>) h11)"
    unfolding h11(1) by (rule onstop_zero[OF z])
  have v: "visited (startRecording env volume0 isMuted0 h)
         = visited h @ (r @ [(now h11)\<lparr>errorMsg := Some ''Recording failed (0 bytes). Try a different browser or file.''\<rparr>,
             (now h11)\<lparr>errorMsg := Some ''Recording failed (0 bytes). Try a different browser or file.'',
                        processingState := IDLE\<rparr>])"
    unfolding run_eq using h11(2) by simp
  have a: "\<forall>s\<in>set (added h (startRecording env volume0 isMuted0 h)). processingState s \<noteq> COMPLETED"
    unfolding added_append[OF v] using h11(3,4) by auto
  have b: "processingState (now (startRecording env volume0 isMuted0 h)) = IDLE"
    "errorMsg (now (startRecording env volume0 isMuted0 h))
       = Some ''Recording failed (0 bytes). Try a different browser or file.''"
    "downloadUrl (now (startRecording env volume0 isMuted0 h)) = None"
    unfolding run_eq using h11(5) by simp_all
  show "let h' = startRecording env volume0 isMuted0 h
       in processingState (now h') = IDLE
        \<and> errorMsg (now h') = Some ''Recording failed (0 bytes). Try a different browser or file.''
        \<and> downloadUrl (now h') = None
        \<and> (\<forall>s\<in>set (added h h'). processingState s \<noteq> COMPLETED)"
    unfolding Let_def using a b by blast
qed

theorem zero_byte_finalize_fails_witness:
  "length (concat [[], [] :: nat list]) = 0
   \<and> playOk silentEnv \<and> (\<exists>f\<in>set (frames silentEnv). snd f) \<and> concat (dataEvents silentEnv) = []
   \<and> processingState (now (onstop (Fin 1) False [[], []] ([], recordingEditor))) = IDLE
   \<and> processingState (now (startRecording silentEnv (Fin 1) False ([], idleEditor))) = IDLE
   \<and> errorMsg (now (startRecording silentEnv (Fin 1) False ([], idleEditor)))
        = Some ''Recording failed (0 bytes). Try a different browser or file.''
   \<and> downloadUrl (now (startRecording silentEnv (Fin 1) False ([], idleEditor))) = None"
proof -
  have e: "playOk silentEnv \<and> (\<exists>f\<in>set (frames silentEnv). snd f) \<and> concat (dataEvents silentEnv) = []"
    by (simp add: silentEnv_def sampleEnv_def)
  have c: "length (concat [[], [] :: nat list]) = 0" by simp
  show ?thesis
    using zero_byte_finalize_fails [of "[[], []]" "Fin 1" False "([], recordingEditor)" silentEnv]
      zero_byte_finalize_fails [of "[[], []]" "Fin 1" False "([], idleEditor)" silentEnv] e c
    by (simp add: Let_def)
qed



section \<open>Starting an export\<close>



text \<open>
  Claim C1 fails on the code. With \<^verbatim>\<open>Contain\<close>, an AI background requested, no image yet,
  a prompt, and an image service that throws (no API key), the export passes through
  \<^verbatim>\<open>GENERATING_BACKGROUND\<close>, sets the error message and \<^verbatim>\<open>IDLE\<close>, and then goes on:
  it enters \<^verbatim>\<open>RECORDING\<close>, clears the error message, and completes the capture.
\<close>

theorem startProcessing_generation_failure_run:
  "remdups_adj (map (\<lambda>s. (processingState s, errorMsg s))
      (visited (startProcessing sampleEnv aiConfig ([], idleEditor))))
   = [(IDLE, None), (GENERATING_BACKGROUND, None),
      (GENERATING_BACKGROUND, Some ''Failed to generate background. Check API Key or try again.''),
      (IDLE, Some ''Failed to generate background. Check API Key or try again.''),
      (RECORDING, Some ''Failed to generate background. Check API Key or try again.''),
      (RECORDING, None), (COMPLETED, None)]"
  by code_simp

text \<open>
  The same for every input: after a failed generation \<open>startProcessing\<close> starts the
  recording from the state the failure has left.
\<close>

lemma startProcessing_after_failed_generation:
  assumes "videoRef (now h) \<noteq> None" and "canvasRef (now h)"
    and "scaleMode config = CONTAIN" and "useAIBackground config" and "aiBgImage (now h) = None"
    and "js_trim (aiPrompt config) \<noteq> []"
    and "generateBackgroundImage (apiKey env) (generateContent env)
           (aiPrompt config @ '' texture, abstract background, high quality, seamless pattern style'') = Inl e"
  shows "startProcessing env config h
       = startRecording env (volume (now h)) (isMuted (now h))
           (upd (\<lambda>s. s\<lparr>processingState := IDLE\<rparr>)
             (upd (\<lambda>s. s\<lparr>errorMsg := Some ''Failed to generate background. Check API Key or try again.''\<rparr>)
               (upd (\<lambda>s. s\<lparr>errorMsg := None\<rparr>)
                 (upd (\<lambda>s. s\<lparr>processingState := GENERATING_BACKGROUND\<rparr>)
                   (upd (\<lambda>s. s\<lparr>isPlaying := False\<rparr>) h)))))"
proof -
  have p: "aiPrompt config \<noteq> []" using assms(6) by (auto simp add: js_trim_def)
  show ?thesis
    using assms p by (auto simp add: startProcessing_def generateAIBackground_def Let_def)
qed




section \<open>Repeated composition\<close>

lemma getTargetDimensions_defined: "\<exists>d. getTargetDimensions config = Some d"
  by (cases "aspectRatio config") (simp_all add: getTargetDimensions_def)

lemma drawFrame_shadowReset:
  assumes "getTargetDimensions config = Some td"
  shows "\<exists>cv1. drawFrame paint config img (Some vid) (Some cv) = Inr (Some cv1) \<and> shadowReset (ctx cv1)"
  using assms by (simp add: drawFrame_def Let_def split_beta shadowReset_def setCtx_def issue_def)

text \<open>Two canvases that agree after the opening fill give the same frame.\<close>

lemma drawFrame_cong:
  assumes td: "getTargetDimensions config = Some td"
    and eq: "issue paint (FillRect (Fin 0) (Fin 0) (width td) (height td))
               (setCtx (\<lambda>c. c\<lparr>fillStyle := backgroundColor config\<rparr>) cv)
           = issue paint (FillRect (Fin 0) (Fin 0) (width td) (height td))
               (setCtx (\<lambda>c. c\<lparr>fillStyle := backgroundColor config\<rparr>) cv')"
  shows "drawFrame paint config img (Some vid) (Some cv) = drawFrame paint config img (Some vid) (Some cv')"
  unfolding drawFrame_def Let_def by (simp add: td eq)

lemma opening_fill_eq:
  fixes cv cv' :: "'px Canvas"
  assumes c: "(ctx cv')\<lparr>fillStyle := bg\<rparr> = (ctx cv)\<lparr>fillStyle := bg\<rparr>"
    and fill: "\<forall>p p'. paint ((ctx cv)\<lparr>fillStyle := bg\<rparr>, op) p = paint ((ctx cv)\<lparr>fillStyle := bg\<rparr>, op) p'"
  shows "issue paint op (setCtx (\<lambda>c. c\<lparr>fillStyle := bg\<rparr>) cv')
       = issue paint op (setCtx (\<lambda>c. c\<lparr>fillStyle := bg\<rparr>) cv)"
proof (rule Canvas.equality)
  show "ctx (issue paint op (setCtx (\<lambda>c. c\<lparr>fillStyle := bg\<rparr>) cv'))
      = ctx (issue paint op (setCtx (\<lambda>c. c\<lparr>fillStyle := bg\<rparr>) cv))"
    using c by (simp add: issue_def setCtx_def)
  show "pixels (issue paint op (setCtx (\<lambda>c. c\<lparr>fillStyle := bg\<rparr>) cv'))
      = pixels (issue paint op (setCtx (\<lambda>c. c\<lparr>fillStyle := bg\<rparr>) cv))"
    using c fill by (simp add: issue_def setCtx_def)
qed simp

text \<open>
  Claim C9 (amended). On a canvas whose shadow attributes are the reset ones (as every call
  leaves them), and for a rendering in which the opening fill of the call replaces what
  the canvas held, a call of \<open>drawFrame\<close> yields a canvas that a second call with the same
  inputs leaves as it is: the same pixels and the same context attributes.
\<close>

theorem drawFrame_idempotent:
  assumes sh: "shadowReset (ctx cv)"
    and td: "getTargetDimensions config = Some td"
    and fill: "\<forall>p p'. paint ((ctx cv)\<lparr>fillStyle := backgroundColor config\<rparr>,
                               FillRect (Fin 0) (Fin 0) (width td) (height td)) p
                     = paint ((ctx cv)\<lparr>fillStyle := backgroundColor config\<rparr>,
                               FillRect (Fin 0) (Fin 0) (width td) (height td)) p'"
  shows "\<exists>cv1. drawFrame paint config img (Some vid) (Some cv) = Inr (Some cv1)
        \<and> drawFrame paint config img (Some vid) (Some cv1) = Inr (Some cv1)
        \<and> shadowReset (ctx cv1)"
proof -
  obtain cv1 where cv1: "drawFrame paint config img (Some vid) (Some cv) = Inr (Some cv1)" "shadowReset (ctx cv1)"
    using drawFrame_shadowReset[OF td] by blast
  have c: "(ctx cv1)\<lparr>fillStyle := backgroundColor config\<rparr> = (ctx cv)\<lparr>fillStyle := backgroundColor config\<rparr>"
    using sh cv1(2) by (simp add: shadowReset_def)
  have "issue paint (FillRect (Fin 0) (Fin 0) (width td) (height td))
               (setCtx (\<lambda>c. c\<lparr>fillStyle := backgroundColor config\<rparr>) cv1)
      = issue paint (FillRect (Fin 0) (Fin 0) (width td) (height td))
               (setCtx (\<lambda>c. c\<lparr>fillStyle := backgroundColor config\<rparr>) cv)"
    using c fill by (rule opening_fill_eq)
  then have "drawFrame paint config img (Some vid) (Some cv1) = drawFrame paint config img (Some vid) (Some cv)"
    by (rule drawFrame_cong[OF td])
  then show ?thesis using cv1 by simp
qed


theorem drawFrame_idempotent_witness:
  "shadowReset (ctx \<lparr>ctx = freshCtx, pixels = 200 :: real\<rparr>)
   \<and> getTargetDimensions defaultConfig = Some \<lparr>width = Fin 1080, height = Fin 1920\<rparr>
   \<and> (\<exists>cv1. drawFrame paddingPixel defaultConfig None (Some hdVideo) (Some \<lparr>ctx = freshCtx, pixels = 200\<rparr>)
               = Inr (Some cv1)
        \<and> drawFrame paddingPixel defaultConfig None (Some hdVideo) (Some cv1) = Inr (Some cv1))"
proof -
  have sh: "shadowReset (ctx \<lparr>ctx = freshCtx, pixels = 200::real\<rparr>)"
    by (simp add: shadowReset_def freshCtx_def)
  have td: "getTargetDimensions defaultConfig = Some \<lparr>width = Fin 1080, height = Fin 1920\<rparr>"
    by (simp add: getTargetDimensions_def defaultConfig_def)
  have fill: "\<forall>p p'. paddingPixel ((ctx \<lparr>ctx = freshCtx, pixels = 200::real\<rparr>)\<lparr>fillStyle := backgroundColor defaultConfig\<rparr>,
                 FillRect (Fin 0) (Fin 0) (width \<lparr>width = Fin 1080, height = Fin 1920\<rparr>)
                                          (height \<lparr>width = Fin 1080, height = Fin 1920\<rparr>)) p
            = paddingPixel ((ctx \<lparr>ctx = freshCtx, pixels = 200::real\<rparr>)\<lparr>fillStyle := backgroundColor defaultConfig\<rparr>,
                 FillRect (Fin 0) (Fin 0) (width \<lparr>width = Fin 1080, height = Fin 1920\<rparr>)
                                          (height \<lparr>width = Fin 1080, height = Fin 1920\<rparr>)) p'"
    by (simp add: paddingPixel_def cssColour_def defaultConfig_def)
  show ?thesis
    using drawFrame_idempotent [where cv = "\<lparr>ctx = freshCtx, pixels = 200\<rparr>" and config = defaultConfig
        and td = "\<lparr>width = Fin 1080, height = Fin 1920\<rparr>" and paint = paddingPixel
        and img = None and vid = hdVideo] sh td fill
    by blast
qed

text \<open>
  Claim C9 as stated fails for a configuration whose background colour is translucent:
  the opening fill then blends with what the canvas holds, and the second call changes
  the padding.
\<close>

theorem drawFrame_translucent_counterexample:
  "drawFrame paddingPixel translucentConfig None (Some hdVideo) (Some \<lparr>ctx = freshCtx, pixels = 0\<rparr>)
     = Inr (Some \<lparr>ctx = freshCtx\<lparr>fillStyle := ''rgba(255,255,255,0.5)''\<rparr>, pixels = 765 / 4\<rparr>)
   \<and> drawFrame paddingPixel translucentConfig None (Some hdVideo)
        (Some \<lparr>ctx = freshCtx\<lparr>fillStyle := ''rgba(255,255,255,0.5)''\<rparr>, pixels = 765 / 4\<rparr>)
     = Inr (Some \<lparr>ctx = freshCtx\<lparr>fillStyle := ''rgba(255,255,255,0.5)''\<rparr>, pixels = 3825 / 16\<rparr>)
   \<and> (765 / 4 :: real) \<noteq> 3825 / 16"
  by (simp add: drawFrame_def drawBackground_def getTargetDimensions_def translucentConfig_def defaultConfig_def
        foregroundRect_def hdVideo_def freshCtx_def paddingPixel_def cssColour_def issue_def setCtx_def Let_def)

end
